theory Spec2Isabelle
  imports Main "HOL-Library.AList"
begin

section \<open>The config-sync main service (services/main.js)\<close>

text \<open>
  The service reconciles configuration entries held in a database with JSON files in a
  destination directory. Every function of \<^verbatim>\<open>services/main.js\<close> is \<^verbatim>\<open>async\<close>: it
  returns a promise that either resolves with a value or rejects with an error. A promise
  is modelled by the value it settles to, \<open>error + 'a\<close>: \<open>Inr v\<close> when it resolves with
  \<open>v\<close>, \<open>Inl e\<close> when it rejects with \<open>e\<close>.
\<close>

subsection \<open>JavaScript strings\<close>

text \<open>
  A string is a list of characters. The regular expressions of the source use \<open>.\<close>, which
  matches every character except a line terminator; among the 8-bit characters these are
  line feed and carriage return.
\<close>

definition lineTerminator :: "char \<Rightarrow> bool" where
  "lineTerminator c = (c = CHR 0x0A \<or> c = CHR 0x0D)"

text \<open>\<^verbatim>\<open>s.split('.')\<close>: the pieces of \<open>s\<close> between the dots; never the empty array.\<close>

fun split_dot :: "string \<Rightarrow> string list" where
  "split_dot [] = [[]]"
| "split_dot (c # cs) =
     (if c = CHR ''.'' then [] # split_dot cs
      else (case split_dot cs of [] \<Rightarrow> [[c]] | p # ps \<Rightarrow> (c # p) # ps))"

text \<open>\<^verbatim>\<open>a.join('.')\<close>.\<close>

fun join_dot :: "string list \<Rightarrow> string" where
  "join_dot [] = []"
| "join_dot [x] = x"
| "join_dot (x # y # ys) = x @ CHR ''.'' # join_dot (y # ys)"

text \<open>
  \<^verbatim>\<open>s.split(/\.(.+)/)[1]\<close>. The split looks for the first dot that is followed by a
  character other than a line terminator; the array then holds the text before that dot
  and, at index 1, the capture group: the longest run of such characters after the dot.
  When there is no such dot the array is \<^verbatim>\<open>[s]\<close> and index 1 is \<^verbatim>\<open>undefined\<close>
  (\<open>None\<close>).
\<close>

fun split_rest :: "string \<Rightarrow> string option" where
  "split_rest [] = None"
| "split_rest (c # cs) =
     (if c = CHR ''.'' \<and> cs \<noteq> [] \<and> \<not> lineTerminator (hd cs)
      then Some (takeWhile (\<lambda>x. \<not> lineTerminator x) cs)
      else split_rest cs)"

subsection \<open>Key codec\<close>

text \<open>
  \<^verbatim>\<open>configName.replace(/:/g, "#")\<close> (lines 26, 62 and 76): every colon of a name becomes
  a hash before the name is put into a file path.
\<close>

definition encodeName :: "string \<Rightarrow> string" where
  "encodeName configName = map (\<lambda>c. if c = CHR '':'' then CHR ''#'' else c) configName"

text \<open>
  \<^verbatim>\<open>name.replace(/#/g, ":")\<close> (line 109): every hash of a name read from a file name
  becomes a colon.
\<close>

definition decodeName :: "string \<Rightarrow> string" where
  "decodeName name = map (\<lambda>c. if c = CHR ''#'' then CHR '':'' else c) name"

subsection \<open>Errors, JSON values and objects\<close>

text \<open>
  The errors a promise of this file can reject with: the \<^verbatim>\<open>TypeError\<close> of reading a
  property of \<^verbatim>\<open>undefined\<close>, the \<^verbatim>\<open>SyntaxError\<close> of \<^verbatim>\<open>JSON.parse\<close>, and the system
  errors of the \<^verbatim>\<open>fs\<close> module (\<open>EIO\<close> stands for every refusal of the operating system
  other than a missing file or a path that is not a directory).
\<close>

datatype error = TypeError | SyntaxError | ENOENT | ENOTDIR | EIO

text \<open>
  The content of a config entry is a JSON value; numbers are restricted to integers, and no
  property below looks inside a value. \<open>JNull\<close> is JavaScript's \<^verbatim>\<open>null\<close>.
\<close>

datatype json =
    JNull
  | JBool bool
  | JNumber int
  | JString string
  | JArray "json list"
  | JObject "(string \<times> json) list"

text \<open>
  A snapshot is a JavaScript object used as a mapping from composite key to content: its
  properties in insertion order, no key twice. \<^verbatim>\<open>o[k] = v\<close> is \<open>AList.update k v o\<close>: the
  value is replaced in place when the key is there, appended otherwise.
\<close>

type_synonym snapshot = "(string \<times> json) list"

text \<open>
  \<^verbatim>\<open>Object.assign(target, source)\<close> copies every property of \<open>source\<close> into \<open>target\<close>, in
  the order of \<open>source\<close>, and returns \<open>target\<close>.
\<close>

definition Object_assign :: "snapshot \<Rightarrow> snapshot \<Rightarrow> snapshot" where
  "Object_assign target source = fold (\<lambda>(k, v). AList.update k v) source target"

subsection \<open>The file system\<close>

text \<open>
  The \<^verbatim>\<open>fs\<close> module of the runtime, over a flat file system: the directories that exist
  (each path written with its final slash), the regular files as an association list from
  path to content, and the paths on which the operating system refuses to work
  (\<open>faulty\<close>: no permission, a full disk, a missing parent, ...). An operation that fails
  changes nothing. Directories inside a listed directory are not modelled.
\<close>

record filesystem =
  dirs :: "string list"
  files :: "(string \<times> string) list"
  faulty :: "string list"

definition dirPath :: "string \<Rightarrow> string" where
  "dirPath p = (if p \<noteq> [] \<and> last p = CHR ''/'' then p else p @ ''/'')"

definition existsSync :: "filesystem \<Rightarrow> string \<Rightarrow> bool" where
  "existsSync fsys p = (dirPath p \<in> set (dirs fsys) \<or> p \<in> fst ` set (files fsys))"

text \<open>\<^verbatim>\<open>fs.mkdirSync(p, { recursive: true })\<close>; ancestors are not tracked.\<close>

definition mkdirSync :: "filesystem \<Rightarrow> string \<Rightarrow> error + filesystem" where
  "mkdirSync fsys p =
     (if dirPath p \<in> set (faulty fsys) then Inl EIO
      else Inr (fsys\<lparr>dirs := List.insert (dirPath p) (dirs fsys)\<rparr>))"

text \<open>The name of \<open>path\<close> inside the directory \<open>dir\<close>, when \<open>path\<close> lies directly in it.\<close>

definition entryName :: "string \<Rightarrow> string \<Rightarrow> string option" where
  "entryName dir path =
     (let n = drop (length dir) path in
      if take (length dir) path = dir \<and> n \<noteq> [] \<and> CHR ''/'' \<notin> set n then Some n else None)"

definition readdirSync :: "filesystem \<Rightarrow> string \<Rightarrow> error + string list" where
  "readdirSync fsys p =
     (if dirPath p \<in> set (dirs fsys)
      then Inr (List.map_filter (entryName (dirPath p)) (map fst (files fsys)))
      else if p \<in> fst ` set (files fsys) then Inl ENOTDIR else Inl ENOENT)"

definition writeFile :: "filesystem \<Rightarrow> string \<Rightarrow> string \<Rightarrow> error + filesystem" where
  "writeFile fsys path data =
     (if path \<in> set (faulty fsys) then Inl EIO
      else Inr (fsys\<lparr>files := AList.update path data (files fsys)\<rparr>))"

definition readFile :: "filesystem \<Rightarrow> string \<Rightarrow> error + string" where
  "readFile fsys path =
     (case map_of (files fsys) path of
        None \<Rightarrow> Inl ENOENT
      | Some data \<Rightarrow> if path \<in> set (faulty fsys) then Inl EIO else Inr data)"

definition unlinkSync :: "filesystem \<Rightarrow> string \<Rightarrow> error + filesystem" where
  "unlinkSync fsys path =
     (case map_of (files fsys) path of
        None \<Rightarrow> Inl ENOENT
      | Some data \<Rightarrow>
          if path \<in> set (faulty fsys) then Inl EIO
          else Inr (fsys\<lparr>files := AList.delete path (files fsys)\<rparr>))"

subsection \<open>The plugin object and the world\<close>

text \<open>
  \<^verbatim>\<open>strapi.plugins['config-sync'].config\<close>: the policy. The field \<^verbatim>\<open>include\<close> is written
  \<open>include_types\<close>, since \<open>include\<close> is a word of the proof language.
\<close>

record config =
  include_types :: "string list"
  exclude :: "string list"
  destination :: string
  minify :: bool

text \<open>
  \<^verbatim>\<open>strapi.plugins['config-sync'].services[type]\<close>: the provider of a type, whose code is
  outside this file. A provider is represented by the object its \<^verbatim>\<open>getAllFromDatabase()\<close>
  resolves with; a call of its \<^verbatim>\<open>importSingle(name, content)\<close> is recorded in the world.
  A type without a provider is \<open>None\<close> (\<^verbatim>\<open>undefined\<close>).
\<close>

record provider =
  getAllFromDatabase :: snapshot

record plugin =
  config :: config
  services :: "string \<Rightarrow> provider option"

datatype call = ImportSingle string string json

text \<open>
  What the service can change: the file system, and the database through the providers,
  seen as the list of provider calls made so far (oldest first).
\<close>

record world =
  fs :: filesystem
  calls :: "call list"

subsection \<open>Writing, deleting and reading one file\<close>

text \<open>Lines 34 to 36: the destination directory is created when it does not exist.\<close>

definition ensureDestination :: "filesystem \<Rightarrow> string \<Rightarrow> error + filesystem" where
  "ensureDestination fsys dest =
     (if \<not> existsSync fsys dest then mkdirSync fsys dest else Inr fsys)"

text \<open>
  \<^verbatim>\<open>writeConfigFile\<close> (lines 20 to 48). \<open>stringify v (Some n)\<close> is the runtime's
  \<^verbatim>\<open>JSON.stringify(v, null, n)\<close> and \<open>stringify v None\<close> is \<^verbatim>\<open>JSON.stringify(v)\<close>. The
  exclusion test reads the name before it is encoded. A rejection of \<^verbatim>\<open>writeFile\<close> is
  caught by the empty \<^verbatim>\<open>.catch\<close> handler; an exception of \<^verbatim>\<open>mkdirSync\<close> is not.
\<close>

definition writeConfigFile ::
  "(json \<Rightarrow> nat option \<Rightarrow> string) \<Rightarrow> plugin \<Rightarrow> world \<Rightarrow> string \<Rightarrow> string \<Rightarrow> json
     \<Rightarrow> error + world" where
  "writeConfigFile stringify strapi w configType configName fileContents =
     (let shouldExclude = (configType @ ''.'' @ configName) \<in> set (exclude (config strapi)) in
      if shouldExclude then Inr w
      else
        let configName = encodeName configName;
            json = (if \<not> minify (config strapi) then stringify fileContents (Some 2)
                    else stringify fileContents None)
        in case ensureDestination (fs w) (destination (config strapi)) of
             Inl e \<Rightarrow> Inl e
           | Inr fs1 \<Rightarrow>
               (case writeFile fs1
                       (destination (config strapi) @ configType @ ''.'' @ configName @ ''.json'')
                       json of
                  Inl e \<Rightarrow> Inr (w\<lparr>fs := fs1\<rparr>)
                | Inr fs2 \<Rightarrow> Inr (w\<lparr>fs := fs2\<rparr>)))"

text \<open>
  \<^verbatim>\<open>deleteConfigFile\<close> (lines 56 to 65); its argument is the composite key. The exception
  of \<^verbatim>\<open>unlinkSync\<close> is not caught, so the promise rejects with it.
\<close>

definition deleteConfigFile :: "plugin \<Rightarrow> world \<Rightarrow> string \<Rightarrow> error + world" where
  "deleteConfigFile strapi w configName =
     (let shouldExclude = configName \<in> set (exclude (config strapi)) in
      if shouldExclude then Inr w
      else
        let configName = encodeName configName
        in case unlinkSync (fs w) (destination (config strapi) @ configName @ ''.json'') of
             Inl e \<Rightarrow> Inl e
           | Inr fs1 \<Rightarrow> Inr (w\<lparr>fs := fs1\<rparr>))"

text \<open>
  \<^verbatim>\<open>readConfigFile\<close> (lines 74 to 86). \<open>parse\<close> is the runtime's \<^verbatim>\<open>JSON.parse\<close>. The
  \<^verbatim>\<open>.catch\<close> handler follows the \<^verbatim>\<open>.then\<close>, so it turns a failed read and a failed parse
  alike into \<^verbatim>\<open>null\<close>.
\<close>

definition readConfigFile ::
  "(string \<Rightarrow> error + json) \<Rightarrow> plugin \<Rightarrow> world \<Rightarrow> string \<Rightarrow> string \<Rightarrow> error + json" where
  "readConfigFile parse strapi w configType configName =
     (let configName = encodeName configName
      in case readFile (fs w)
                (destination (config strapi) @ configType @ ''.'' @ configName @ ''.json'') of
           Inl e \<Rightarrow> Inr JNull
         | Inr data \<Rightarrow> (case parse data of Inl e \<Rightarrow> Inr JNull | Inr v \<Rightarrow> Inr v))"

subsection \<open>Snapshots\<close>

text \<open>
  An optional type filter is \<^verbatim>\<open>null\<close> (\<open>None\<close>) or a string. \<open>typeFiltered\<close> is the test
  \<^verbatim>\<open>configType && configType !== type\<close>: \<^verbatim>\<open>null\<close> and the empty string are falsy.
\<close>

definition truthy :: "string option \<Rightarrow> bool" where
  "truthy configType = (case configType of None \<Rightarrow> False | Some t \<Rightarrow> t \<noteq> [])"

definition typeFiltered :: "string option \<Rightarrow> string \<Rightarrow> bool" where
  "typeFiltered configType type = (truthy configType \<and> configType \<noteq> Some type)"

text \<open>
  The test of lines 111 to 115 that leaves a file out of the snapshot. The exclusion list is
  searched for the type and the name as the file name has them (\<open>name\<close>, not
  \<open>formattedName\<close>).
\<close>

definition leftOut :: "plugin \<Rightarrow> string option \<Rightarrow> string \<Rightarrow> string \<Rightarrow> bool" where
  "leftOut strapi configType type name =
     (typeFiltered configType type \<or>
      type \<notin> set (include_types (config strapi)) \<or>
      (type @ ''.'' @ name) \<in> set (exclude (config strapi)))"

text \<open>
  The callback of lines 104 to 121 for one file of the directory: \<open>Inr None\<close> when the file
  is left out, \<open>Inr (Some (key, content))\<close> when it sets \<^verbatim>\<open>fileConfigs[key]\<close>, and a
  \<^verbatim>\<open>TypeError\<close> when \<^verbatim>\<open>file.split(/\.(.+)/)[1]\<close> is \<^verbatim>\<open>undefined\<close>.
\<close>

definition fileEntry ::
  "(string \<Rightarrow> error + json) \<Rightarrow> plugin \<Rightarrow> world \<Rightarrow> string option \<Rightarrow> string
     \<Rightarrow> error + (string \<times> json) option" where
  "fileEntry parse strapi w configType file =
     (let type = hd (split_dot file) in
      case split_rest file of
        None \<Rightarrow> Inl TypeError
      | Some rest \<Rightarrow>
          let name = join_dot (butlast (split_dot rest));
              formattedName = decodeName name
          in if leftOut strapi configType type name then Inr None
             else case readConfigFile parse strapi w type name of
                    Inl e \<Rightarrow> Inl e
                  | Inr fileContents \<Rightarrow> Inr (Some (type @ ''.'' @ formattedName, fileContents)))"

text \<open>
  \<^verbatim>\<open>Promise.all(configFiles.map(...))\<close>: the callbacks in the order of the listing; the
  first rejection rejects the whole.
\<close>

fun collectFiles ::
  "(string \<Rightarrow> error + json) \<Rightarrow> plugin \<Rightarrow> world \<Rightarrow> string option \<Rightarrow> string list
     \<Rightarrow> snapshot \<Rightarrow> error + snapshot" where
  "collectFiles parse strapi w configType [] fileConfigs = Inr fileConfigs"
| "collectFiles parse strapi w configType (file # configFiles) fileConfigs =
     (case fileEntry parse strapi w configType file of
        Inl e \<Rightarrow> Inl e
      | Inr None \<Rightarrow> collectFiles parse strapi w configType configFiles fileConfigs
      | Inr (Some (key, fileContents)) \<Rightarrow>
          collectFiles parse strapi w configType configFiles
            (AList.update key fileContents fileConfigs))"

text \<open>\<^verbatim>\<open>getAllConfigFromFiles\<close> (lines 94 to 127).\<close>

definition getAllConfigFromFiles ::
  "(string \<Rightarrow> error + json) \<Rightarrow> plugin \<Rightarrow> world \<Rightarrow> string option \<Rightarrow> error + snapshot" where
  "getAllConfigFromFiles parse strapi w configType =
     (if \<not> existsSync (fs w) (destination (config strapi)) then Inr []
      else case readdirSync (fs w) (destination (config strapi)) of
             Inl e \<Rightarrow> Inl e
           | Inr configFiles \<Rightarrow> collectFiles parse strapi w configType configFiles [])"

text \<open>
  The callbacks of lines 138 to 145, in the order of the include list: a type that passes
  the filter has its provider's entries fetched, and line 144 makes
  \<^verbatim>\<open>Object.assign(config, databaseConfigs)\<close> the new \<^verbatim>\<open>databaseConfigs\<close>. A type without
  a provider raises a \<^verbatim>\<open>TypeError\<close>.
\<close>

fun mergeProviders ::
  "plugin \<Rightarrow> string option \<Rightarrow> string list \<Rightarrow> snapshot \<Rightarrow> error + snapshot" where
  "mergeProviders strapi configType [] databaseConfigs = Inr databaseConfigs"
| "mergeProviders strapi configType (type # types) databaseConfigs =
     (if typeFiltered configType type
      then mergeProviders strapi configType types databaseConfigs
      else case services strapi type of
             None \<Rightarrow> Inl TypeError
           | Some p \<Rightarrow>
               mergeProviders strapi configType types
                 (Object_assign (getAllFromDatabase p) databaseConfigs))"

text \<open>\<^verbatim>\<open>getAllConfigFromDatabase\<close> (lines 134 to 151).\<close>

definition getAllConfigFromDatabase :: "plugin \<Rightarrow> string option \<Rightarrow> error + snapshot" where
  "getAllConfigFromDatabase strapi configType =
     mergeProviders strapi configType (include_types (config strapi)) []"

subsection \<open>Import and export\<close>

text \<open>
  \<^verbatim>\<open>importSingleConfig\<close> (lines 198 to 206): the content read from the file, \<^verbatim>\<open>null\<close>
  included, goes to the provider's \<^verbatim>\<open>importSingle\<close>.
\<close>

definition importSingleConfig ::
  "(string \<Rightarrow> error + json) \<Rightarrow> plugin \<Rightarrow> world \<Rightarrow> string \<Rightarrow> string \<Rightarrow> error + world" where
  "importSingleConfig parse strapi w configType configName =
     (let shouldExclude = (configType @ ''.'' @ configName) \<in> set (exclude (config strapi)) in
      if shouldExclude then Inr w
      else case readConfigFile parse strapi w configType configName of
             Inl e \<Rightarrow> Inl e
           | Inr fileContents \<Rightarrow>
               (case services strapi configType of
                  None \<Rightarrow> Inl TypeError
                | Some p \<Rightarrow>
                    Inr (w\<lparr>calls := calls w @ [ImportSingle configType configName fileContents]\<rparr>)))"

text \<open>
  \<^verbatim>\<open>exportSingleConfig\<close> (lines 215 to 217): the body is empty. (\<^verbatim>\<open>exportAllConfig\<close>,
  lines 181 to 189, only calls \<^verbatim>\<open>exportAll\<close> of the providers, whose code is outside this
  file; it is left out.)
\<close>

definition exportSingleConfig :: "plugin \<Rightarrow> world \<Rightarrow> string \<Rightarrow> string \<Rightarrow> error + world" where
  "exportSingleConfig strapi w configType configName = Inr w"

text \<open>
  \<^verbatim>\<open>importAllConfig\<close> (lines 158 to 174). Lines 159 and 160 read the two snapshots; both
  calls are made without an argument, so the parameter defaults to \<^verbatim>\<open>null\<close>. The pair is
  in the order in which line 162 hands the snapshots to \<^verbatim>\<open>difference\<close>.
\<close>

definition importAllConfig_snapshots ::
  "(string \<Rightarrow> error + json) \<Rightarrow> plugin \<Rightarrow> world \<Rightarrow> string option
     \<Rightarrow> error + (snapshot \<times> snapshot)" where
  "importAllConfig_snapshots parse strapi w configType =
     (case getAllConfigFromFiles parse strapi w None of
        Inl e \<Rightarrow> Inl e
      | Inr fileConfig \<Rightarrow>
          (case getAllConfigFromDatabase strapi None of
             Inl e \<Rightarrow> Inl e
           | Inr databaseConfig \<Rightarrow> Inr (databaseConfig, fileConfig)))"

text \<open>
  Lines 164 to 172 for one key of the diff: nothing for a key of another type; otherwise
  \<^verbatim>\<open>importSingleConfig(type, name)\<close> is called and not awaited, so a rejection of it never
  reaches the caller. When \<^verbatim>\<open>file.split(/\.(.+)/)[1]\<close> is \<^verbatim>\<open>undefined\<close> the call either
  returns at the exclusion test or rejects inside \<^verbatim>\<open>readConfigFile\<close>; it changes nothing.
\<close>

definition importKey ::
  "(string \<Rightarrow> error + json) \<Rightarrow> plugin \<Rightarrow> string option \<Rightarrow> string \<Rightarrow> world \<Rightarrow> world" where
  "importKey parse strapi configType file w =
     (let type = hd (split_dot file);
          name = split_rest file
      in if typeFiltered configType type then w
         else case name of
                None \<Rightarrow> w
              | Some n \<Rightarrow>
                  (case importSingleConfig parse strapi w type n of
                     Inl e \<Rightarrow> w
                   | Inr w' \<Rightarrow> w'))"

text \<open>
  \<open>difference\<close> is \<^verbatim>\<open>utils/getObjectDiff\<close>, whose code is outside this file; it is a
  parameter, and only the keys of the object it returns are used. The world returned is
  the one reached when the calls started by line 172 have settled, in the order of the
  keys.
\<close>

definition importAllConfig ::
  "(snapshot \<Rightarrow> snapshot \<Rightarrow> (string \<times> 'd) list) \<Rightarrow> (string \<Rightarrow> error + json) \<Rightarrow> plugin \<Rightarrow> world
     \<Rightarrow> string option \<Rightarrow> error + world" where
  "importAllConfig difference parse strapi w configType =
     (case importAllConfig_snapshots parse strapi w configType of
        Inl e \<Rightarrow> Inl e
      | Inr (databaseConfig, fileConfig) \<Rightarrow>
          (let diff = difference databaseConfig fileConfig
           in Inr (fold (importKey parse strapi configType) (map fst diff) w)))"

subsection \<open>Well-formed objects\<close>

text \<open>
  A JavaScript object holds a key once. The representation of an object as a list is
  well formed when no key occurs twice in it; the providers' objects are well formed when
  this holds of the object of every included type that has a provider.
\<close>

definition wellFormed :: "snapshot \<Rightarrow> bool" where
  "wellFormed obj = distinct (map fst obj)"

definition providersWellFormed :: "plugin \<Rightarrow> string list \<Rightarrow> bool" where
  "providersWellFormed strapi types =
     list_all (\<lambda>type. case services strapi type of
                        None \<Rightarrow> True
                      | Some p \<Rightarrow> wellFormed (getAllFromDatabase p)) types"

subsection \<open>The diff engine\<close>

text \<open>
  Modelled from the spec: \<^verbatim>\<open>utils/getObjectDiff\<close>, which \<^verbatim>\<open>main.js\<close> imports under the
  name \<^verbatim>\<open>difference\<close>, is not among the source files. By the spec's section 4.3,
  \<open>getObjectDiff old new\<close> holds a \<open>Created\<close> change for every key of \<open>new\<close> that \<open>old\<close>
  lacks, an \<open>Updated\<close> change for every key of both whose contents are unequal, a
  \<open>Deleted\<close> change for every key of \<open>old\<close> that \<open>new\<close> lacks, and nothing for a key of both
  with equal contents. Contents are compared as values of \<open>json\<close>. The property of
  \<open>importAllConfig\<close> below holds for every function in its place; this one is used to run
  \<open>importAllConfig\<close> on an example.
\<close>

datatype change = Created json | Updated json | Deleted

definition getObjectDiff :: "snapshot \<Rightarrow> snapshot \<Rightarrow> (string \<times> change) list" where
  "getObjectDiff old new =
     [(k, if map_of old k = None then Created v else Updated v).
        (k, v) \<leftarrow> new, map_of old k \<noteq> Some v] @
     [(k, Deleted). (k, v) \<leftarrow> old, map_of new k = None]"

subsection \<open>An example installation\<close>

text \<open>
  Stand-ins for the runtime's \<^verbatim>\<open>JSON.parse\<close> and \<^verbatim>\<open>JSON.stringify\<close> on the few texts and
  values of the examples; the only indentation the source asks for is two spaces.
\<close>

definition example_parse :: "string \<Rightarrow> error + json" where
  "example_parse data =
     (if data = ''{}'' then Inr (JObject [])
      else if data = ''[1,2]'' then Inr (JArray [JNumber 1, JNumber 2])
      else Inl SyntaxError)"

definition example_stringify :: "json \<Rightarrow> nat option \<Rightarrow> string" where
  "example_stringify v space =
     (if v = JArray [JNumber 1, JNumber 2]
      then (case space of
              None \<Rightarrow> ''[1,2]''
            | Some n \<Rightarrow> ''[\<newline>  1,\<newline>  2\<newline>]'')
      else ''null'')"

text \<open>
  Two managed types, one excluded entry, and a destination directory that holds one file
  of each type; the operating system refuses to touch \<open>config/role.locked.json\<close>.
\<close>

definition example_config :: config where
  "example_config =
     \<lparr>include_types = [''core-store'', ''role''],
      exclude = [''core-store.api::page''],
      destination = ''config/'',
      minify = False\<rparr>"

definition example_strapi :: plugin where
  "example_strapi =
     \<lparr>config = example_config,
      services = (\<lambda>type.
        if type = ''core-store''
        then Some \<lparr>getAllFromDatabase = [(''core-store.settings'', JNumber 1)]\<rparr>
        else if type = ''role''
        then Some \<lparr>getAllFromDatabase = [(''role.admin'', JNumber 2)]\<rparr>
        else None)\<rparr>"

definition example_fs :: filesystem where
  "example_fs =
     \<lparr>dirs = [''config/''],
      files = [(''config/core-store.settings.json'', ''{}''),
               (''config/role.editor.json'', ''[1,2]'')],
      faulty = [''config/role.locked.json'']\<rparr>"

definition example_world :: world where
  "example_world = \<lparr>fs = example_fs, calls = []\<rparr>"

text \<open>
  The same installation with one more file in the directory: the file of the entry
  \<open>api::page\<close> of type \<open>core-store\<close>, which the policy excludes.
\<close>

definition stale_world :: world where
  "stale_world =
     \<lparr>fs = example_fs\<lparr>files :=
             (''config/core-store.api##page.json'', ''{}'') # files example_fs\<rparr>,
      calls = []\<rparr>"

text \<open>The same installation before the destination directory is made.\<close>

definition fresh_world :: world where
  "fresh_world = \<lparr>fs = \<lparr>dirs = [], files = [], faulty = []\<rparr>, calls = []\<rparr>"

text \<open>The same policy with the destination written without its final slash.\<close>

definition noslash_strapi :: plugin where
  "noslash_strapi = example_strapi\<lparr>config := example_config\<lparr>destination := ''config''\<rparr>\<rparr>"

text \<open>The same policy with the \<open>minify\<close> option set.\<close>

definition minify_strapi :: plugin where
  "minify_strapi = example_strapi\<lparr>config := example_config\<lparr>minify := True\<rparr>\<rparr>"

text \<open>Two providers that both hold an entry under the key \<open>shared.key\<close>.\<close>

definition collision_strapi :: plugin where
  "collision_strapi =
     \<lparr>config = example_config,
      services = (\<lambda>type.
        if type = ''core-store''
        then Some \<lparr>getAllFromDatabase = [(''shared.key'', JNumber 1)]\<rparr>
        else if type = ''role''
        then Some \<lparr>getAllFromDatabase = [(''shared.key'', JNumber 2)]\<rparr>
        else None)\<rparr>"

section \<open>Properties\<close>

subsection \<open>Key codec\<close>

text \<open>
  Claim C2, as amended. For every name without a hash character, decoding the encoded
  name gives the name back; and the name \<open>api::foo.bar\<close> encodes to \<open>api##foo.bar\<close>: the
  colons become hashes, the dot stays.
\<close>

theorem decode_encode_roundtrip:
  "(CHR ''#'' \<notin> set name \<longrightarrow> decodeName (encodeName name) = name) \<and>
   encodeName ''api::foo.bar'' = ''api##foo.bar''"
proof
  show "CHR ''#'' \<notin> set name \<longrightarrow> decodeName (encodeName name) = name"
  proof
    assume "CHR ''#'' \<notin> set name"
    then show "decodeName (encodeName name) = name"
      by (induction name) (auto simp: decodeName_def encodeName_def)
  qed
  show "encodeName ''api::foo.bar'' = ''api##foo.bar''"
    by (simp add: encodeName_def)
qed

theorem decode_encode_roundtrip_witness:
  "CHR ''#'' \<notin> set ''plugin::users-permissions.role'' \<and>
   encodeName ''plugin::users-permissions.role'' = ''plugin##users-permissions.role'' \<and>
   decodeName (encodeName ''plugin::users-permissions.role'') = ''plugin::users-permissions.role''"
  using decode_encode_roundtrip [of "''plugin::users-permissions.role''"]
  by (simp add: encodeName_def)

text \<open>
  Claim C2, as stated, also says that \<open>api::foo.bar\<close> encodes to \<open>api::foo#bar\<close>. The
  code leaves no colon in an encoded name and never touches a dot.
\<close>

theorem encode_example_counterexample:
  "encodeName ''api::foo.bar'' \<noteq> ''api::foo#bar''"
  by (simp add: encodeName_def)

text \<open>
  The round trip through a file name. For a type without a dot and a name without a hash
  and without a line terminator, the file name that \<open>writeConfigFile\<close> builds is read
  back by the callback of \<open>getAllConfigFromFiles\<close> as the same type and the same name.
\<close>

lemma split_dot_nonempty: "split_dot s \<noteq> []"
  by (induction s) (auto split: list.splits)

lemma split_dot_append: "split_dot (s @ CHR ''.'' # t) = split_dot s @ split_dot t"
proof (induction s)
  case Nil
  show ?case by simp
next
  case (Cons c s)
  obtain q qs where "split_dot s = q # qs"
    using split_dot_nonempty [of s] by (cases "split_dot s") auto
  with Cons show ?case by simp
qed

lemma split_dot_no_dot: "CHR ''.'' \<notin> set s \<Longrightarrow> split_dot s = [s]"
  by (induction s) auto

lemma join_dot_Cons: "join_dot ((c # q) # qs) = c # join_dot (q # qs)"
  by (cases qs) auto

lemma join_split_dot: "join_dot (split_dot s) = s"
proof (induction s)
  case Nil
  show ?case by simp
next
  case (Cons c s)
  obtain q qs where "split_dot s = q # qs"
    using split_dot_nonempty [of s] by (cases "split_dot s") auto
  with Cons show ?case by (auto simp: join_dot_Cons)
qed

lemma split_rest_after_type:
  "CHR ''.'' \<notin> set t \<Longrightarrow> r \<noteq> [] \<Longrightarrow> \<forall>c\<in>set r. \<not> lineTerminator c \<Longrightarrow>
     split_rest (t @ CHR ''.'' # r) = Some r"
proof (induction t)
  case Nil
  then have "takeWhile (\<lambda>x. \<not> lineTerminator x) r = r"
    by (simp add: takeWhile_eq_all_conv)
  with Nil show ?case by (cases r) auto
next
  case (Cons a t)
  then show ?case by auto
qed

lemma encodeName_lineTerminator:
  "\<forall>c\<in>set name. \<not> lineTerminator c \<Longrightarrow> \<forall>c\<in>set (encodeName name). \<not> lineTerminator c"
  by (auto simp: encodeName_def lineTerminator_def)

lemma decodeName_encodeName: "CHR ''#'' \<notin> set name \<Longrightarrow> decodeName (encodeName name) = name"
  by (induction name) (auto simp: decodeName_def encodeName_def)

lemma written_file_name_read_back:
  assumes "CHR ''.'' \<notin> set configType"
    and "CHR ''#'' \<notin> set configName"
    and "\<forall>c\<in>set configName. \<not> lineTerminator c"
    and "f = configType @ ''.'' @ encodeName configName @ ''.json''"
  shows "hd (split_dot f) = configType"
    and "split_rest f = Some (encodeName configName @ ''.json'')"
    and "join_dot (butlast (split_dot (encodeName configName @ ''.json''))) =
           encodeName configName"
    and "decodeName (encodeName configName) = configName"
proof -
  have f: "f = configType @ CHR ''.'' # (encodeName configName @ ''.json'')"
    using assms(4) by simp
  show "hd (split_dot f) = configType"
    unfolding f split_dot_append using assms(1) by (simp add: split_dot_no_dot)
  have "\<forall>c\<in>set (encodeName configName @ ''.json''). \<not> lineTerminator c"
    using encodeName_lineTerminator [OF assms(3)] by (auto simp: lineTerminator_def)
  then show "split_rest f = Some (encodeName configName @ ''.json'')"
    unfolding f using assms(1) by (intro split_rest_after_type) simp_all
  have "split_dot (encodeName configName @ ''.json'') =
      split_dot (encodeName configName) @ [''json'']"
    using split_dot_append [of "encodeName configName" "''json''"] by simp
  then show "join_dot (butlast (split_dot (encodeName configName @ ''.json''))) =
      encodeName configName"
    by (simp add: join_split_dot)
  show "decodeName (encodeName configName) = configName"
    using assms(2) by (rule decodeName_encodeName)
qed

lemma written_file_key:
  assumes "CHR ''.'' \<notin> set configType"
    and "CHR ''#'' \<notin> set configName"
    and "\<forall>c\<in>set configName. \<not> lineTerminator c"
    and "\<not> leftOut strapi typeFilter configType (encodeName configName)"
  shows "\<exists>v. fileEntry parse strapi w typeFilter
            (configType @ ''.'' @ encodeName configName @ ''.json'') =
          Inr (Some (configType @ ''.'' @ configName, v))"
  using written_file_name_read_back [OF assms(1,2,3) refl] assms(4)
  by (auto simp: fileEntry_def readConfigFile_def Let_def split: sum.splits)

subsection \<open>Reading one file\<close>

text \<open>
  Claim C7. When no file exists at the path \<open>destination @ type @ ''.'' @ encodedName @
  ''.json''\<close>, \<open>readConfigFile\<close> resolves with \<^verbatim>\<open>null\<close>: the error of the failed read
  does not reach the caller.
\<close>

theorem missing_file_reads_null:
  "map_of (files (fs w))
      (destination (config strapi) @ configType @ ''.'' @ encodeName configName @ ''.json'') = None \<Longrightarrow>
     readConfigFile parse strapi w configType configName = Inr JNull"
  by (simp add: readConfigFile_def readFile_def)

text \<open>In the example there is no file for the entry \<open>admin\<close> of type \<open>role\<close>.\<close>

theorem missing_file_reads_null_witness:
  "map_of (files (fs example_world))
      (destination (config example_strapi) @ ''role'' @ ''.'' @ encodeName ''admin'' @ ''.json'') = None \<and>
   readConfigFile example_parse example_strapi example_world ''role'' ''admin'' = Inr JNull"
proof -
  have h: "map_of (files (fs example_world))
      (destination (config example_strapi) @ ''role'' @ ''.'' @ encodeName ''admin'' @ ''.json'') = None"
    by (simp add: example_world_def example_fs_def example_strapi_def example_config_def
        encodeName_def)
  from h missing_file_reads_null [OF h] show ?thesis by simp
qed

text \<open>
  Claim C10. For an entry that is not excluded, whose file does not exist and whose type
  has a provider, \<open>importSingleConfig\<close> does not stop: it calls the provider's
  \<^verbatim>\<open>importSingle\<close> with the name and the content \<^verbatim>\<open>null\<close>.
\<close>

theorem missing_file_imports_null:
  assumes "(configType @ ''.'' @ configName) \<notin> set (exclude (config strapi))"
    and "map_of (files (fs w))
      (destination (config strapi) @ configType @ ''.'' @ encodeName configName @ ''.json'') = None"
    and "services strapi configType = Some p"
  shows "importSingleConfig parse strapi w configType configName =
     Inr (w\<lparr>calls := calls w @ [ImportSingle configType configName JNull]\<rparr>)"
  using assms by (simp add: importSingleConfig_def readConfigFile_def readFile_def)

theorem missing_file_imports_null_witness:
  "importSingleConfig example_parse example_strapi example_world ''role'' ''admin'' =
     Inr (example_world\<lparr>calls := [ImportSingle ''role'' ''admin'' JNull]\<rparr>)"
proof -
  have h1: "(''role'' @ ''.'' @ ''admin'') \<notin> set (exclude (config example_strapi))"
    by (simp add: example_strapi_def example_config_def)
  have h2: "map_of (files (fs example_world))
      (destination (config example_strapi) @ ''role'' @ ''.'' @ encodeName ''admin'' @ ''.json'') = None"
    by (simp add: example_world_def example_fs_def example_strapi_def example_config_def
        encodeName_def)
  have h3: "services example_strapi ''role'' =
      Some \<lparr>getAllFromDatabase = [(''role.admin'', JNumber 2)]\<rparr>"
    by (simp add: example_strapi_def)
  from missing_file_imports_null [OF h1 h2 h3, of example_parse] show ?thesis
    by (simp add: example_world_def)
qed

subsection \<open>The snapshot of the files\<close>

text \<open>
  Claim C6. When nothing exists at the destination path, \<open>getAllConfigFromFiles\<close> resolves
  with the empty object, whatever the type filter.
\<close>

theorem missing_destination_empty_snapshot:
  "\<not> existsSync (fs w) (destination (config strapi)) \<Longrightarrow>
     getAllConfigFromFiles parse strapi w configType = Inr []"
  by (simp add: getAllConfigFromFiles_def)

theorem missing_destination_empty_snapshot_witness:
  "\<not> existsSync (fs fresh_world) (destination (config example_strapi)) \<and>
   getAllConfigFromFiles example_parse example_strapi fresh_world (Some ''role'') = Inr []"
proof -
  have h: "\<not> existsSync (fs fresh_world) (destination (config example_strapi))"
    by (simp add: existsSync_def fresh_world_def)
  from h missing_destination_empty_snapshot [OF h] show ?thesis by simp
qed

text \<open>
  The characters of a name read from a file name are characters of the file name, and a
  name without a hash is its own decoding.
\<close>

lemma split_dot_pieces: "\<forall>p\<in>set (split_dot s). set p \<subseteq> set s"
proof (induction s)
  case Nil
  show ?case by simp
next
  case (Cons c cs)
  note IH = this
  show ?case
  proof (cases "split_dot cs")
    case Nil
    then show ?thesis by auto
  next
    case (Cons q qs)
    with IH have "set q \<subseteq> set cs" and "\<forall>p\<in>set qs. set p \<subseteq> set cs"
      by simp_all
    with Cons show ?thesis by auto
  qed
qed

lemma join_dot_chars:
  "c \<in> set (join_dot ps) \<Longrightarrow> c = CHR ''.'' \<or> (\<exists>p\<in>set ps. c \<in> set p)"
  by (induction ps rule: join_dot.induct) auto

lemma split_rest_chars: "split_rest s = Some rest \<Longrightarrow> set rest \<subseteq> set s"
proof (induction s)
  case Nil
  then show ?case by simp
next
  case (Cons c cs)
  then show ?case
    by (auto split: if_splits dest: set_takeWhileD)
qed

lemma name_chars:
  assumes "split_rest f = Some rest"
    and "CHR ''#'' \<in> set (join_dot (butlast (split_dot rest)))"
  shows "CHR ''#'' \<in> set f"
proof -
  from join_dot_chars [OF assms(2)] obtain p
    where "p \<in> set (butlast (split_dot rest))" and "CHR ''#'' \<in> set p" by auto
  then have "CHR ''#'' \<in> set rest"
    using split_dot_pieces [of rest] by (auto dest: in_set_butlastD)
  with split_rest_chars [OF assms(1)] show ?thesis by auto
qed

lemma decodeName_without_hash: "CHR ''#'' \<notin> set name \<Longrightarrow> decodeName name = name"
  by (induction name) (auto simp: decodeName_def)

text \<open>A file without a hash in its name never yields an excluded key.\<close>

lemma fileEntry_key:
  assumes "fileEntry parse strapi w configType f = Inr (Some (key, v))"
    and "CHR ''#'' \<notin> set f"
  shows "key \<notin> set (exclude (config strapi))"
proof -
  from assms(1) obtain rest where rest: "split_rest f = Some rest"
    by (auto simp: fileEntry_def Let_def split: option.splits)
  let ?type = "hd (split_dot f)"
  let ?name = "join_dot (butlast (split_dot rest))"
  from assms(1) rest have kept: "\<not> leftOut strapi configType ?type ?name"
    and key: "key = ?type @ ''.'' @ decodeName ?name"
    by (auto simp: fileEntry_def Let_def split: if_splits sum.splits)
  from name_chars [OF rest] assms(2) have "CHR ''#'' \<notin> set ?name" by blast
  then have "decodeName ?name = ?name" by (rule decodeName_without_hash)
  with kept key show ?thesis by (simp add: leftOut_def)
qed

lemma collectFiles_keys:
  "collectFiles parse strapi w configType configFiles fileConfigs = Inr snapshot \<Longrightarrow>
   key \<in> fst ` set snapshot \<Longrightarrow>
   key \<in> fst ` set fileConfigs \<or>
   (\<exists>f\<in>set configFiles. \<exists>v. fileEntry parse strapi w configType f = Inr (Some (key, v)))"
proof (induction configFiles arbitrary: fileConfigs)
  case Nil
  then show ?case by simp
next
  case (Cons f configFiles)
  show ?case
  proof (cases "fileEntry parse strapi w configType f")
    case (Inl e)
    with Cons.prems show ?thesis by simp
  next
    case (Inr entry)
    show ?thesis
    proof (cases entry)
      case None
      with Inr Cons.prems Cons.IH [of fileConfigs] show ?thesis by auto
    next
      case (Some kv)
      obtain k v where kv: "kv = (k, v)" by (cases kv)
      with Some Inr Cons.prems Cons.IH [of "AList.update k v fileConfigs"]
      show ?thesis by (auto simp: dom_update)
    qed
  qed
qed

lemma entryName_chars: "entryName dir path = Some n \<Longrightarrow> set n \<subseteq> set path"
  by (auto simp: entryName_def Let_def split: if_splits dest: in_set_dropD)

lemma readdirSync_names:
  assumes "readdirSync fsys p = Inr names" and "f \<in> set names"
  shows "\<exists>path\<in>fst ` set (files fsys). set f \<subseteq> set path"
proof -
  from assms have "f \<in> set (List.map_filter (entryName (dirPath p)) (map fst (files fsys)))"
    by (auto simp: readdirSync_def split: if_splits)
  then have "\<exists>path\<in>fst ` set (files fsys). entryName (dirPath p) path = Some f"
    by (force simp: List.map_filter_def)
  with entryName_chars show ?thesis by blast
qed

text \<open>
  Where the exclusion does hold: as long as no file path contains a hash, no excluded key
  is in the snapshot of the files.
\<close>

lemma excluded_absent_without_hash:
  assumes "getAllConfigFromFiles parse strapi w configType = Inr snapshot"
    and "\<forall>path\<in>fst ` set (files (fs w)). CHR ''#'' \<notin> set path"
    and "key \<in> set (exclude (config strapi))"
  shows "key \<notin> fst ` set snapshot"
proof
  assume present: "key \<in> fst ` set snapshot"
  show False
  proof (cases "existsSync (fs w) (destination (config strapi))")
    case False
    with assms(1) present show False by (simp add: getAllConfigFromFiles_def)
  next
    case True
    with assms(1) obtain configFiles
      where listing: "readdirSync (fs w) (destination (config strapi)) = Inr configFiles"
        and run: "collectFiles parse strapi w configType configFiles [] = Inr snapshot"
      by (auto simp: getAllConfigFromFiles_def split: sum.splits)
    from collectFiles_keys [OF run present] obtain f v
      where f: "f \<in> set configFiles"
        and entry: "fileEntry parse strapi w configType f = Inr (Some (key, v))" by auto
    from readdirSync_names [OF listing f] assms(2) have "CHR ''#'' \<notin> set f" by blast
    from fileEntry_key [OF entry this] assms(3) show False by simp
  qed
qed

text \<open>
  The operations on one entry test the exclusion list with the name as the caller gives
  it, and do nothing for an excluded entry.
\<close>

lemma excluded_single_operations_noop:
  assumes "(configType @ ''.'' @ configName) \<in> set (exclude (config strapi))"
  shows "writeConfigFile stringify strapi w configType configName fileContents = Inr w"
    and "importSingleConfig parse strapi w configType configName = Inr w"
    and "deleteConfigFile strapi w (configType @ ''.'' @ configName) = Inr w"
  using assms
  by (simp_all add: writeConfigFile_def importSingleConfig_def deleteConfigFile_def)

text \<open>
  Claim C1 says that an excluded entry is never in the snapshot of the files, whatever
  the directory holds. The code at the input below: the policy excludes
  \<open>core-store.api::page\<close>, the directory holds the file \<open>core-store.api##page.json\<close> of
  that entry, and the snapshot has the excluded key. Line 114 searches the exclusion list
  for the encoded name \<open>core-store.api##page\<close>, where \<open>writeConfigFile\<close>,
  \<open>importSingleConfig\<close> and \<open>deleteConfigFile\<close> search it for the name with its colons.
\<close>

theorem excluded_key_read_from_file:
  "''core-store.api::page'' \<in> set (exclude (config example_strapi)) \<and>
   getAllConfigFromFiles example_parse example_strapi stale_world None =
     Inr [(''core-store.api::page'', JObject []),
          (''core-store.settings'', JObject []),
          (''role.editor'', JArray [JNumber 1, JNumber 2])]"
  by code_simp

subsection \<open>The snapshot of the database\<close>

lemma wellFormed_update: "wellFormed obj \<Longrightarrow> wellFormed (AList.update k v obj)"
  by (simp add: wellFormed_def distinct_update)

lemma wellFormed_Object_assign:
  "wellFormed target \<Longrightarrow> wellFormed (Object_assign target source)"
  unfolding Object_assign_def
  by (induction source arbitrary: target) (auto simp: wellFormed_update)

text \<open>A property of the source object overrides the target's property of the same key.\<close>

lemma map_of_Object_assign:
  "wellFormed source \<Longrightarrow>
     map_of (Object_assign target source) k =
       (case map_of source k of None \<Rightarrow> map_of target k | Some v \<Rightarrow> Some v)"
  unfolding Object_assign_def wellFormed_def
proof (induction source arbitrary: target)
  case Nil
  then show ?case by simp
next
  case (Cons kv source)
  obtain k' v' where kv: "kv = (k', v')" by (cases kv)
  from Cons.prems kv have absent: "map_of source k' = None" and rest: "distinct (map fst source)"
    by (auto simp: map_of_eq_None_iff)
  show ?case
    using Cons.IH [OF rest, of "AList.update k' v' target"] absent
    by (auto simp: kv update_conv' split: option.splits)
qed

text \<open>
  Line 144 passes the entries gathered so far as the source, so they override the entries
  of the type being merged: an entry, once gathered, stays to the end.
\<close>

lemma mergeProviders_keeps:
  "mergeProviders strapi configType types databaseConfigs = Inr snapshot \<Longrightarrow>
   providersWellFormed strapi types \<Longrightarrow> wellFormed databaseConfigs \<Longrightarrow>
   map_of databaseConfigs key = Some v \<Longrightarrow> map_of snapshot key = Some v"
proof (induction types arbitrary: databaseConfigs)
  case Nil
  then show ?case by simp
next
  case (Cons type types)
  from Cons.prems(2) have tail: "providersWellFormed strapi types"
    by (simp add: providersWellFormed_def)
  show ?case
  proof (cases "typeFiltered configType type")
    case True
    with Cons.prems Cons.IH [OF _ tail] show ?thesis by simp
  next
    case False
    with Cons.prems(1) obtain p where p: "services strapi type = Some p"
      and run: "mergeProviders strapi configType types
          (Object_assign (getAllFromDatabase p) databaseConfigs) = Inr snapshot"
      by (auto split: option.splits)
    from p Cons.prems(2) have "wellFormed (getAllFromDatabase p)"
      by (simp add: providersWellFormed_def)
    then have wf: "wellFormed (Object_assign (getAllFromDatabase p) databaseConfigs)"
      by (rule wellFormed_Object_assign)
    have "map_of (Object_assign (getAllFromDatabase p) databaseConfigs) key = Some v"
      using Cons.prems(3,4) by (simp add: map_of_Object_assign)
    with Cons.IH [OF run tail wf] show ?thesis .
  qed
qed

lemma mergeProviders_first:
  assumes "mergeProviders strapi configType (before @ type # after) databaseConfigs = Inr snapshot"
    and "providersWellFormed strapi (before @ type # after)"
    and "wellFormed databaseConfigs"
    and "map_of databaseConfigs key = None"
    and "\<forall>t\<in>set before. \<forall>q. services strapi t = Some q \<longrightarrow>
           typeFiltered configType t \<or> map_of (getAllFromDatabase q) key = None"
    and "\<not> typeFiltered configType type"
    and "services strapi type = Some p"
    and "map_of (getAllFromDatabase p) key = Some v"
  shows "map_of snapshot key = Some v"
  using assms(1,2,3,4,5)
proof (induction before arbitrary: databaseConfigs)
  case Nil
  let ?acc = "Object_assign (getAllFromDatabase p) databaseConfigs"
  from Nil.prems(1) assms(6,7)
  have run: "mergeProviders strapi configType after ?acc = Inr snapshot"
    by simp
  from Nil.prems(2) assms(7) have "wellFormed (getAllFromDatabase p)"
    and tail: "providersWellFormed strapi after"
    by (simp_all add: providersWellFormed_def)
  then have wf: "wellFormed ?acc" by (simp add: wellFormed_Object_assign)
  have "map_of ?acc key = Some v"
    using Nil.prems(3,4) assms(8) by (simp add: map_of_Object_assign)
  with mergeProviders_keeps [OF run tail wf] show ?case .
next
  case (Cons t before)
  from Cons.prems(2) have tail: "providersWellFormed strapi (before @ type # after)"
    by (simp add: providersWellFormed_def)
  show ?case
  proof (cases "typeFiltered configType t")
    case True
    with Cons.prems(1)
    have "mergeProviders strapi configType (before @ type # after) databaseConfigs = Inr snapshot"
      by simp
    from Cons.IH [OF this tail Cons.prems(3,4)] Cons.prems(5) show ?thesis by simp
  next
    case False
    with Cons.prems(1) obtain q where q: "services strapi t = Some q"
      and run: "mergeProviders strapi configType (before @ type # after)
          (Object_assign (getAllFromDatabase q) databaseConfigs) = Inr snapshot"
      by (auto split: option.splits)
    from q Cons.prems(2) have "wellFormed (getAllFromDatabase q)"
      by (simp add: providersWellFormed_def)
    then have wf: "wellFormed (Object_assign (getAllFromDatabase q) databaseConfigs)"
      by (rule wellFormed_Object_assign)
    from Cons.prems(5) q False have "map_of (getAllFromDatabase q) key = None" by auto
    then have none: "map_of (Object_assign (getAllFromDatabase q) databaseConfigs) key = None"
      using Cons.prems(3,4) by (simp add: map_of_Object_assign)
    from Cons.IH [OF run tail wf none] Cons.prems(5) show ?thesis by simp
  qed
qed

text \<open>
  Claim C3, as amended. In \<open>getAllConfigFromDatabase\<close>, with the included types processed
  in the order of the include list and the providers' objects well formed, the entry of a
  key in the snapshot is the one of the first processed type that has the key: when a
  later type has an entry under the same key, the earlier one stays.
\<close>

theorem first_contributor_wins:
  assumes "getAllConfigFromDatabase strapi configType = Inr snapshot"
    and "providersWellFormed strapi (include_types (config strapi))"
    and "include_types (config strapi) = before @ type # after"
    and "\<forall>t\<in>set before. \<forall>q. services strapi t = Some q \<longrightarrow>
           typeFiltered configType t \<or> map_of (getAllFromDatabase q) key = None"
    and "\<not> typeFiltered configType type"
    and "services strapi type = Some p"
    and "map_of (getAllFromDatabase p) key = Some v"
  shows "map_of snapshot key = Some v"
proof -
  from assms(1,3)
  have "mergeProviders strapi configType (before @ type # after) [] = Inr snapshot"
    by (simp add: getAllConfigFromDatabase_def)
  then show ?thesis
    by (rule mergeProviders_first) (use assms in \<open>simp_all add: wellFormed_def\<close>)
qed

text \<open>
  The two providers of \<open>collision_strapi\<close> both have the key \<open>shared.key\<close>; the snapshot
  has the entry of \<open>core-store\<close>, the type processed first.
\<close>

theorem first_contributor_wins_witness:
  "\<exists>snapshot. getAllConfigFromDatabase collision_strapi None = Inr snapshot \<and>
     map_of snapshot ''shared.key'' = Some (JNumber 1)"
proof -
  have run: "getAllConfigFromDatabase collision_strapi None = Inr [(''shared.key'', JNumber 1)]"
    by (simp add: collision_strapi_def example_config_def getAllConfigFromDatabase_def
        typeFiltered_def truthy_def Object_assign_def)
  have wf: "providersWellFormed collision_strapi (include_types (config collision_strapi))"
    by (simp add: providersWellFormed_def collision_strapi_def example_config_def
        wellFormed_def)
  have inc: "include_types (config collision_strapi) = [] @ ''core-store'' # [''role'']"
    by (simp add: collision_strapi_def example_config_def)
  have none: "\<forall>t\<in>set []. \<forall>q. services collision_strapi t = Some q \<longrightarrow>
           typeFiltered None t \<or> map_of (getAllFromDatabase q) ''shared.key'' = None"
    by simp
  have nf: "\<not> typeFiltered None ''core-store''"
    by (simp add: typeFiltered_def truthy_def)
  have p: "services collision_strapi ''core-store'' =
      Some \<lparr>getAllFromDatabase = [(''shared.key'', JNumber 1)]\<rparr>"
    by (simp add: collision_strapi_def)
  have v: "map_of (getAllFromDatabase \<lparr>getAllFromDatabase = [(''shared.key'', JNumber 1)]\<rparr>)
      ''shared.key'' = Some (JNumber 1)"
    by simp
  from first_contributor_wins [OF run wf inc none nf p v] run show ?thesis by simp
qed

text \<open>
  Claim C3, as stated, has the entry of the type processed later in the snapshot. Here
  \<open>role\<close> is processed after \<open>core-store\<close> and holds \<open>2\<close> under the shared key; the
  snapshot holds \<open>1\<close>.
\<close>

theorem later_type_loses_counterexample:
  "include_types (config collision_strapi) = [''core-store'', ''role''] \<and>
   services collision_strapi ''core-store'' =
     Some \<lparr>getAllFromDatabase = [(''shared.key'', JNumber 1)]\<rparr> \<and>
   services collision_strapi ''role'' =
     Some \<lparr>getAllFromDatabase = [(''shared.key'', JNumber 2)]\<rparr> \<and>
   getAllConfigFromDatabase collision_strapi None = Inr [(''shared.key'', JNumber 1)]"
  by (simp add: collision_strapi_def example_config_def getAllConfigFromDatabase_def
        typeFiltered_def truthy_def Object_assign_def)

subsection \<open>Writing and deleting one file\<close>

lemma ensureDestination_frame:
  "ensureDestination fsys dest = Inr fs1 \<Longrightarrow>
     files fs1 = files fsys \<and> faulty fs1 = faulty fsys"
  by (auto simp: ensureDestination_def mkdirSync_def split: if_splits)

lemma example_destination_exists:
  "ensureDestination (fs example_world) (destination (config example_strapi)) =
     Inr (fs example_world)"
  by (simp add: ensureDestination_def existsSync_def dirPath_def example_world_def
      example_fs_def example_strapi_def example_config_def)

text \<open>
  Claim C5, as amended. When the underlying \<^verbatim>\<open>writeFile\<close> fails, \<open>writeConfigFile\<close>
  resolves all the same, with no file changed: the failure is swallowed. When the
  underlying \<^verbatim>\<open>unlinkSync\<close> fails, \<open>deleteConfigFile\<close> rejects with that error: the failure
  reaches the caller.
\<close>

theorem write_failure_swallowed_delete_failure_raised:
  "((configType @ ''.'' @ configName) \<notin> set (exclude (config strapi)) \<and>
    ensureDestination (fs w) (destination (config strapi)) = Inr fs1 \<and>
    writeFile fs1
      (destination (config strapi) @ configType @ ''.'' @ encodeName configName @ ''.json'')
      (if \<not> minify (config strapi) then stringify fileContents (Some 2)
       else stringify fileContents None) = Inl e
    \<longrightarrow> writeConfigFile stringify strapi w configType configName fileContents =
          Inr (w\<lparr>fs := fs1\<rparr>)) \<and>
   (key \<notin> set (exclude (config strapi)) \<and>
    unlinkSync (fs w) (destination (config strapi) @ encodeName key @ ''.json'') = Inl e'
    \<longrightarrow> deleteConfigFile strapi w key = Inl e')"
  by (simp add: writeConfigFile_def deleteConfigFile_def)

text \<open>
  In the example the write of \<open>config/role.locked.json\<close> is refused and the world stays as
  it was; there is no file \<open>config/core-store.missing.json\<close> to delete and the caller gets
  the error.
\<close>

theorem write_failure_swallowed_delete_failure_raised_witness:
  "writeConfigFile example_stringify example_strapi example_world ''role'' ''locked'' JNull =
     Inr example_world \<and>
   deleteConfigFile example_strapi example_world ''core-store.missing'' = Inl ENOENT"
proof -
  have w1: "(''role'' @ ''.'' @ ''locked'') \<notin> set (exclude (config example_strapi))"
    by (simp add: example_strapi_def example_config_def)
  have w2: "writeFile (fs example_world)
      (destination (config example_strapi) @ ''role'' @ ''.'' @ encodeName ''locked'' @ ''.json'')
      (if \<not> minify (config example_strapi) then example_stringify JNull (Some 2)
       else example_stringify JNull None) = Inl EIO"
    by (simp add: writeFile_def example_world_def example_fs_def example_strapi_def
        example_config_def encodeName_def)
  have d1: "''core-store.missing'' \<notin> set (exclude (config example_strapi))"
    by (simp add: example_strapi_def example_config_def)
  have d2: "unlinkSync (fs example_world)
      (destination (config example_strapi) @ encodeName ''core-store.missing'' @ ''.json'') =
      Inl ENOENT"
    by (simp add: unlinkSync_def example_world_def example_fs_def example_strapi_def
        example_config_def encodeName_def)
  from write_failure_swallowed_delete_failure_raised
    [of "''role''" "''locked''" example_strapi example_world "fs example_world"
        example_stringify JNull EIO "''core-store.missing''" ENOENT]
    w1 w2 d1 d2 example_destination_exists
  show ?thesis by simp
qed

text \<open>
  Claim C5, as stated, has \<open>deleteConfigFile\<close> return normally when the delete fails. The
  entry \<open>core-store.missing\<close> is not excluded and has no file; the call rejects.
\<close>

theorem delete_failure_counterexample:
  "''core-store.missing'' \<notin> set (exclude (config example_strapi)) \<and>
   unlinkSync (fs example_world) ''config/core-store.missing.json'' = Inl ENOENT \<and>
   deleteConfigFile example_strapi example_world ''core-store.missing'' = Inl ENOENT"
  by (simp add: deleteConfigFile_def unlinkSync_def example_world_def example_fs_def
        example_strapi_def example_config_def encodeName_def)

text \<open>
  Claim C8, as amended. For an entry that is not excluded, when making the destination
  directory and writing the file are not refused, \<open>writeConfigFile\<close> sets the file at the
  path \<open>destination @ type @ ''.'' @ encodedName @ ''.json''\<close> (the destination as
  configured, with nothing put between it and the type) and no other: its content is
  \<^verbatim>\<open>JSON.stringify(fileContents, null, 2)\<close> when \<open>minify\<close> is false and
  \<^verbatim>\<open>JSON.stringify(fileContents)\<close> when it is true. No provider is called.
\<close>

theorem writeConfigFile_persists:
  assumes "(configType @ ''.'' @ configName) \<notin> set (exclude (config strapi))"
    and "ensureDestination (fs w) (destination (config strapi)) = Inr fs1"
    and "path = destination (config strapi) @ configType @ ''.'' @ encodeName configName @ ''.json''"
    and "path \<notin> set (faulty (fs w))"
  shows "\<exists>w'. writeConfigFile stringify strapi w configType configName fileContents = Inr w' \<and>
     map_of (files (fs w')) =
       (map_of (files (fs w)))(path \<mapsto>
          (if minify (config strapi) then stringify fileContents None
           else stringify fileContents (Some 2))) \<and>
     calls w' = calls w"
proof -
  from assms(2) have frame: "files fs1 = files (fs w)" "faulty fs1 = faulty (fs w)"
    by (simp_all add: ensureDestination_frame)
  with assms show ?thesis
    by (simp add: writeConfigFile_def writeFile_def update_conv')
qed

text \<open>
  In the example \<open>minify\<close> is false: the file of the entry \<open>admin\<close> of type \<open>role\<close> gets
  the indented text, and the file that was there keeps its content. With \<open>minify\<close> set it
  gets the compact text.
\<close>

theorem writeConfigFile_persists_witness:
  "(\<exists>w'. writeConfigFile example_stringify example_strapi example_world ''role'' ''admin''
      (JArray [JNumber 1, JNumber 2]) = Inr w' \<and>
     map_of (files (fs w')) ''config/role.admin.json'' = Some ''[\<newline>  1,\<newline>  2\<newline>]'' \<and>
     map_of (files (fs w')) ''config/core-store.settings.json'' = Some ''{}'' \<and>
     calls w' = []) \<and>
   (\<exists>w'. writeConfigFile example_stringify minify_strapi example_world ''role'' ''admin''
      (JArray [JNumber 1, JNumber 2]) = Inr w' \<and>
     map_of (files (fs w')) ''config/role.admin.json'' = Some ''[1,2]'' \<and>
     map_of (files (fs w')) ''config/core-store.settings.json'' = Some ''{}'' \<and>
     calls w' = [])"
proof
  have h1: "(''role'' @ ''.'' @ ''admin'') \<notin> set (exclude (config example_strapi))"
    by (simp add: example_strapi_def example_config_def)
  have h3: "''config/role.admin.json'' =
      destination (config example_strapi) @ ''role'' @ ''.'' @ encodeName ''admin'' @ ''.json''"
    by (simp add: example_strapi_def example_config_def encodeName_def)
  have h4: "''config/role.admin.json'' \<notin> set (faulty (fs example_world))"
    by (simp add: example_world_def example_fs_def)
  from writeConfigFile_persists [OF h1 example_destination_exists h3 h4,
      of example_stringify "JArray [JNumber 1, JNumber 2]"]
  show "\<exists>w'. writeConfigFile example_stringify example_strapi example_world ''role'' ''admin''
      (JArray [JNumber 1, JNumber 2]) = Inr w' \<and>
     map_of (files (fs w')) ''config/role.admin.json'' = Some ''[\<newline>  1,\<newline>  2\<newline>]'' \<and>
     map_of (files (fs w')) ''config/core-store.settings.json'' = Some ''{}'' \<and>
     calls w' = []"
    by (auto simp: example_world_def example_fs_def example_strapi_def example_config_def
          example_stringify_def)
next
  have m1: "(''role'' @ ''.'' @ ''admin'') \<notin> set (exclude (config minify_strapi))"
    by (simp add: minify_strapi_def example_strapi_def example_config_def)
  have m2: "ensureDestination (fs example_world) (destination (config minify_strapi)) =
      Inr (fs example_world)"
    by (simp add: ensureDestination_def existsSync_def dirPath_def example_world_def
        example_fs_def minify_strapi_def example_strapi_def example_config_def)
  have m3: "''config/role.admin.json'' =
      destination (config minify_strapi) @ ''role'' @ ''.'' @ encodeName ''admin'' @ ''.json''"
    by (simp add: minify_strapi_def example_strapi_def example_config_def encodeName_def)
  have m4: "''config/role.admin.json'' \<notin> set (faulty (fs example_world))"
    by (simp add: example_world_def example_fs_def)
  from writeConfigFile_persists [OF m1 m2 m3 m4,
      of example_stringify "JArray [JNumber 1, JNumber 2]"]
  show "\<exists>w'. writeConfigFile example_stringify minify_strapi example_world ''role'' ''admin''
      (JArray [JNumber 1, JNumber 2]) = Inr w' \<and>
     map_of (files (fs w')) ''config/role.admin.json'' = Some ''[1,2]'' \<and>
     map_of (files (fs w')) ''config/core-store.settings.json'' = Some ''{}'' \<and>
     calls w' = []"
    by (auto simp: example_world_def example_fs_def minify_strapi_def example_strapi_def
          example_config_def example_stringify_def)
qed

text \<open>
  Claim C8, as stated, has the file at \<open>{destination}/{type}.{encodedName}.json\<close>. With
  the destination configured as \<open>config\<close> the directory \<open>config/\<close> exists, the write
  succeeds, and the file is \<open>configrole.admin.json\<close>, beside the directory; nothing is at
  \<open>config/role.admin.json\<close>.
\<close>

theorem destination_without_slash_counterexample:
  "destination (config noslash_strapi) = ''config'' \<and>
   writeConfigFile example_stringify noslash_strapi example_world ''role'' ''admin''
      (JArray [JNumber 1, JNumber 2]) =
     Inr (example_world\<lparr>fs := example_fs\<lparr>files := files example_fs @
        [(''configrole.admin.json'', ''[\<newline>  1,\<newline>  2\<newline>]'')]\<rparr>\<rparr>) \<and>
   map_of (files example_fs @ [(''configrole.admin.json'', ''[\<newline>  1,\<newline>  2\<newline>]'')])
      ''config/role.admin.json'' = None"
  by (simp add: writeConfigFile_def ensureDestination_def existsSync_def dirPath_def
        writeFile_def example_world_def example_fs_def noslash_strapi_def example_strapi_def
        example_config_def encodeName_def example_stringify_def)

subsection \<open>Import and export\<close>

text \<open>
  Claim C9. \<open>exportSingleConfig\<close> changes nothing: it resolves with the files and the list
  of provider calls as they were.
\<close>

theorem exportSingleConfig_no_effect:
  "exportSingleConfig strapi w configType configName = Inr w"
  by (simp add: exportSingleConfig_def)

text \<open>
  What one call of \<open>importSingleConfig\<close> can change, and what the calls started for the
  keys of a diff add up to under a type filter.
\<close>

lemma importSingleConfig_effect:
  "importSingleConfig parse strapi w configType configName = Inr w' \<Longrightarrow>
     w' = w \<or> (\<exists>v. w' = w\<lparr>calls := calls w @ [ImportSingle configType configName v]\<rparr>)"
  by (auto simp: importSingleConfig_def split: if_splits sum.splits option.splits)

lemma importKey_effect:
  assumes "t \<noteq> []"
  shows "\<exists>new. importKey parse strapi (Some t) k w = w\<lparr>calls := calls w @ new\<rparr> \<and>
           (\<forall>c\<in>set new. \<exists>n v. c = ImportSingle t n v)"
proof (cases "typeFiltered (Some t) (hd (split_dot k))")
  case True
  then have "importKey parse strapi (Some t) k w = w\<lparr>calls := calls w @ []\<rparr>"
    by (simp add: importKey_def)
  then show ?thesis by (intro exI [of _ "[]"]) simp
next
  case False
  with assms have type: "hd (split_dot k) = t"
    by (simp add: typeFiltered_def truthy_def)
  show ?thesis
  proof (cases "split_rest k")
    case None
    with False have "importKey parse strapi (Some t) k w = w\<lparr>calls := calls w @ []\<rparr>"
      by (simp add: importKey_def)
    then show ?thesis by (intro exI [of _ "[]"]) simp
  next
    case (Some n)
    show ?thesis
    proof (cases "importSingleConfig parse strapi w t n")
      case (Inl e)
      with False Some type
      have "importKey parse strapi (Some t) k w = w\<lparr>calls := calls w @ []\<rparr>"
        by (simp add: importKey_def)
      then show ?thesis by (intro exI [of _ "[]"]) simp
    next
      case (Inr w')
      with False Some type have step: "importKey parse strapi (Some t) k w = w'"
        by (simp add: importKey_def)
      from importSingleConfig_effect [OF Inr] show ?thesis
      proof
        assume "w' = w"
        with step have "importKey parse strapi (Some t) k w = w\<lparr>calls := calls w @ []\<rparr>"
          by simp
        then show ?thesis by (intro exI [of _ "[]"]) simp
      next
        assume "\<exists>v. w' = w\<lparr>calls := calls w @ [ImportSingle t n v]\<rparr>"
        then obtain v where "w' = w\<lparr>calls := calls w @ [ImportSingle t n v]\<rparr>" ..
        with step show ?thesis by (intro exI [of _ "[ImportSingle t n v]"]) simp
      qed
    qed
  qed
qed

lemma importKeys_effect:
  assumes "t \<noteq> []"
  shows "\<exists>new. fold (importKey parse strapi (Some t)) keys w = w\<lparr>calls := calls w @ new\<rparr> \<and>
           (\<forall>c\<in>set new. \<exists>n v. c = ImportSingle t n v)"
proof (induction keys arbitrary: w)
  case Nil
  show ?case by (intro exI [of _ "[]"]) simp
next
  case (Cons k keys)
  from importKey_effect [OF assms, of parse strapi k w]
  obtain new1 where one: "importKey parse strapi (Some t) k w = w\<lparr>calls := calls w @ new1\<rparr>"
    and new1: "\<forall>c\<in>set new1. \<exists>n v. c = ImportSingle t n v" by blast
  from Cons.IH [of "w\<lparr>calls := calls w @ new1\<rparr>"]
  obtain new2
    where rest: "fold (importKey parse strapi (Some t)) keys (w\<lparr>calls := calls w @ new1\<rparr>) =
        w\<lparr>calls := calls w @ new1\<rparr>\<lparr>calls := calls (w\<lparr>calls := calls w @ new1\<rparr>) @ new2\<rparr>"
    and new2: "\<forall>c\<in>set new2. \<exists>n v. c = ImportSingle t n v" by blast
  from one rest have "fold (importKey parse strapi (Some t)) (k # keys) w =
      w\<lparr>calls := calls w @ (new1 @ new2)\<rparr>" by simp
  moreover from new1 new2 have "\<forall>c\<in>set (new1 @ new2). \<exists>n v. c = ImportSingle t n v"
    by auto
  ultimately show ?case by blast
qed

text \<open>
  Claim C4, as amended. For every call \<open>importAllConfig(configType)\<close> with a non-empty
  \<open>configType\<close>, the two snapshots handed to the diff are read without a type filter: they
  are the ones read when \<open>configType\<close> is \<^verbatim>\<open>null\<close>. The filter is applied to the keys of
  the diff: whatever \<open>difference\<close> returns, the files stay as they are and every provider
  call made is an \<^verbatim>\<open>importSingle\<close> of the type \<open>configType\<close>.
\<close>

theorem importAllConfig_filters_after_diff:
  assumes "t \<noteq> []"
  shows "importAllConfig_snapshots parse strapi w (Some t) =
           importAllConfig_snapshots parse strapi w None \<and>
         (\<forall>w'. importAllConfig difference parse strapi w (Some t) = Inr w' \<longrightarrow>
            fs w' = fs w \<and>
            (\<exists>new. calls w' = calls w @ new \<and>
                   (\<forall>c\<in>set new. \<exists>n v. c = ImportSingle t n v)))"
proof (intro conjI allI impI)
  show "importAllConfig_snapshots parse strapi w (Some t) =
      importAllConfig_snapshots parse strapi w None"
    by (simp add: importAllConfig_snapshots_def)
next
  fix w'
  assume run: "importAllConfig difference parse strapi w (Some t) = Inr w'"
  then obtain keys where w': "w' = fold (importKey parse strapi (Some t)) keys w"
    by (auto simp: importAllConfig_def split: sum.splits prod.splits)
  from importKeys_effect [OF assms, of parse strapi keys w]
  obtain new where "fold (importKey parse strapi (Some t)) keys w = w\<lparr>calls := calls w @ new\<rparr>"
    and "\<forall>c\<in>set new. \<exists>n v. c = ImportSingle t n v" by blast
  with w' show "fs w' = fs w"
    and "\<exists>new. calls w' = calls w @ new \<and> (\<forall>c\<in>set new. \<exists>n v. c = ImportSingle t n v)"
    by auto
qed

text \<open>
  In the example, with the type filter \<open>role\<close>: the diff of the unfiltered snapshots has
  three keys, and the two of type \<open>role\<close> are imported.
\<close>

theorem importAllConfig_filters_after_diff_witness:
  "''role'' \<noteq> [] \<and>
   importAllConfig_snapshots example_parse example_strapi example_world (Some ''role'') =
     importAllConfig_snapshots example_parse example_strapi example_world None \<and>
   importAllConfig getObjectDiff example_parse example_strapi example_world (Some ''role'') =
     Inr (example_world\<lparr>calls :=
            [ImportSingle ''role'' ''editor'' (JArray [JNumber 1, JNumber 2]),
             ImportSingle ''role'' ''admin'' JNull]\<rparr>)"
proof -
  have h: "''role'' \<noteq> []" by simp
  have run: "importAllConfig getObjectDiff example_parse example_strapi example_world
      (Some ''role'') =
     Inr (example_world\<lparr>calls :=
            [ImportSingle ''role'' ''editor'' (JArray [JNumber 1, JNumber 2]),
             ImportSingle ''role'' ''admin'' JNull]\<rparr>)"
    by code_simp
  from importAllConfig_filters_after_diff
    [OF h, of example_parse example_strapi example_world getObjectDiff] run
  show ?thesis by simp
qed

text \<open>
  Claim C4, as stated, has no entry of another type in either snapshot handed to the diff.
  With the type filter \<open>role\<close>, the snapshot of the database and the snapshot of the
  files both hold the entry \<open>core-store.settings\<close>, whose type, the text before the first
  dot, is \<open>core-store\<close>.
\<close>

theorem unfiltered_snapshots_counterexample:
  "importAllConfig_snapshots example_parse example_strapi example_world (Some ''role'') =
     Inr ([(''role.admin'', JNumber 2), (''core-store.settings'', JNumber 1)],
          [(''core-store.settings'', JObject []),
           (''role.editor'', JArray [JNumber 1, JNumber 2])]) \<and>
   hd (split_dot ''core-store.settings'') = ''core-store'' \<and>
   ''core-store'' \<noteq> ''role''"
  by code_simp

end
